theory Spec2Isabelle
  imports Main "HOL-Library.Sublist"
begin

section \<open>The conversation orchestrator of \<^verbatim>\<open>backend/ai_generator.py\<close>\<close>

text \<open>
  The class \<^verbatim>\<open>AIGenerator\<close> talks to two collaborators: the LLM client
  (\<^verbatim>\<open>self.client.messages.create\<close>) and the tool manager
  (\<^verbatim>\<open>tool_manager.execute_tool\<close>). Both are outside the class, both may raise, and both
  may answer differently from one call to the next. Each is modelled as a function of the
  list of all calls it has received so far, the current one last; the list of calls is the
  state that the orchestrator threads through (\<open>trace\<close>), so every outbound call is
  observable in the result.
\<close>

subsection \<open>Data\<close>

text \<open>
  An instance of a Python \<^verbatim>\<open>Exception\<close> subclass: its class name and \<^verbatim>\<open>str(e)\<close>.
\<close>

datatype exn = Exn (exn_class: string) (exn_str: string)

text \<open>Values of a tool call's \<^verbatim>\<open>input\<close> dictionary.\<close>

datatype json = JStr string | JInt int

type_synonym tool_input = "(string \<times> json) list"

text \<open>
  The content blocks of a response. A \<^verbatim>\<open>ToolUseBlock\<close> has \<^verbatim>\<open>id\<close>, \<^verbatim>\<open>name\<close> and
  \<^verbatim>\<open>input\<close>; a \<^verbatim>\<open>TextBlock\<close> has \<^verbatim>\<open>text\<close>; a \<^verbatim>\<open>ThinkingBlock\<close> stands for the block
  kinds that are neither a tool request nor carry a \<^verbatim>\<open>text\<close> attribute.
\<close>

datatype content_block =
    TextBlock string
  | ToolUseBlock string string tool_input
  | ThinkingBlock string

fun block_type :: "content_block \<Rightarrow> string" where
  "block_type (TextBlock t) = ''text''"
| "block_type (ToolUseBlock i n inp) = ''tool_use''"
| "block_type (ThinkingBlock t) = ''thinking''"

fun block_class :: "content_block \<Rightarrow> string" where
  "block_class (TextBlock t) = ''TextBlock''"
| "block_class (ToolUseBlock i n inp) = ''ToolUseBlock''"
| "block_class (ThinkingBlock t) = ''ThinkingBlock''"

text \<open>\<^verbatim>\<open>hasattr(block, 'text')\<close>\<close>

fun has_text :: "content_block \<Rightarrow> bool" where
  "has_text (TextBlock t) = True"
| "has_text b = False"

record response =
  content :: "content_block list"
  stop_reason :: string

text \<open>
  The dictionary \<^verbatim>\<open>{"type": "tool_result", "tool_use_id": ..., "content": ...}\<close>.
\<close>

record tool_result =
  result_type :: string
  tool_use_id :: string
  result_content :: string

text \<open>
  A message \<^verbatim>\<open>{"role": ..., "content": ...}\<close>; its content is the query string, the
  content blocks of an assistant turn, or a list of tool results.
\<close>

datatype message_content =
    Text string
  | Blocks "content_block list"
  | ToolResults "tool_result list"

record message =
  role :: string
  message_content :: message_content

text \<open>A tool schema is represented by its name.\<close>

type_synonym tool_schema = string

text \<open>
  The keyword arguments of \<^verbatim>\<open>messages.create\<close>. The keys \<^verbatim>\<open>tools\<close> and
  \<^verbatim>\<open>tool_choice\<close> may be absent from the dictionary: \<open>None\<close>.
\<close>

record api_params =
  model :: string
  temperature :: int
  max_tokens :: int
  messages :: "message list"
  system :: string
  tools :: "tool_schema list option"
  tool_choice :: "string option"

type_synonym tool_call = "string \<times> tool_input"

record trace =
  llm_calls :: "api_params list"
  tool_calls :: "tool_call list"

type_synonym llm = "api_params list \<Rightarrow> exn + response"

type_synonym tool_manager = "tool_call list \<Rightarrow> exn + string"

record generator =
  client :: llm
  self_model :: string

subsection \<open>Constants of the class\<close>

definition SYSTEM_PROMPT :: string where
  \<open>SYSTEM_PROMPT =
   '' You are an AI assistant specialized in course materials and educational content with access to a comprehensive search tool for course information.\<newline>'' @
   ''\<newline>'' @
   ''Search Tool Usage:\<newline>'' @
   ''- Use the search tool **only** for questions about specific course content or detailed educational materials\<newline>'' @
   ''- **Up to two searches per query** for complex queries requiring comparisons or multi-part questions\<newline>'' @
   ''- For simple single-topic questions, one search is sufficient\<newline>'' @
   ''- Synthesize search results into accurate, fact-based responses\<newline>'' @
   ''- If search yields no results, state this clearly without offering alternatives\<newline>'' @
   ''\<newline>'' @
   ''Response Protocol:\<newline>'' @
   ''- **General knowledge questions**: Answer using existing knowledge without searching\<newline>'' @
   ''- **Course-specific questions**: Search first, then answer\<newline>'' @
   ''- **No meta-commentary**:\<newline>'' @
   '' - Provide direct answers only '' @
   [CHR 0xC3, CHR 0xA2, CHR 0xE2, CHR 0x82, CHR 0xAC, CHR 0xE2, CHR 0x80, CHR 0x9D] @
   '' no reasoning process, search explanations, or question-type analysis\<newline>'' @
   '' - Do not mention "based on the search results"\<newline>'' @
   ''\<newline>'' @
   ''\<newline>'' @
   ''All responses must be:\<newline>'' @
   ''1. **Brief, Concise and focused** - Get to the point quickly\<newline>'' @
   ''2. **Educational** - Maintain instructional value\<newline>'' @
   ''3. **Clear** - Use accessible language\<newline>'' @
   ''4. **Example-supported** - Include relevant examples when they aid understanding\<newline>'' @
   ''Provide only the direct answer to what was asked.\<newline>''\<close>

definition MAX_TOOL_ROUNDS :: int where
  "MAX_TOOL_ROUNDS = 2"

subsection \<open>Outbound calls\<close>

text \<open>\<^verbatim>\<open>self.client.messages.create(**params)\<close>: the call is recorded, then answered.\<close>

definition messages_create ::
  "generator \<Rightarrow> trace \<Rightarrow> api_params \<Rightarrow> (exn + response) \<times> trace" where
  "messages_create self tr params =
     (let calls = llm_calls tr @ [params]
      in (client self calls, tr\<lparr>llm_calls := calls\<rparr>))"

text \<open>\<^verbatim>\<open>tool_manager.execute_tool(name, **input)\<close>\<close>

definition execute_tool ::
  "tool_manager \<Rightarrow> trace \<Rightarrow> string \<Rightarrow> tool_input \<Rightarrow> (exn + string) \<times> trace" where
  "execute_tool tool_manager tr name inp =
     (let calls = tool_calls tr @ [(name, inp)]
      in (tool_manager calls, tr\<lparr>tool_calls := calls\<rparr>))"

subsection \<open>\<^verbatim>\<open>_handle_tool_execution\<close>\<close>

text \<open>
  The loop over \<^verbatim>\<open>initial_response.content\<close> (lines 113 to 130). Its state is
  \<^verbatim>\<open>tool_results\<close>, \<^verbatim>\<open>tool_error\<close> and the trace of outbound calls. Only blocks whose
  \<^verbatim>\<open>type\<close> is \<^verbatim>\<open>"tool_use"\<close> are executed; an exception of the tool becomes the
  result text and sets the flag.
\<close>

fun execute_blocks ::
  "tool_manager \<Rightarrow> content_block list \<Rightarrow> tool_result list \<times> bool \<times> trace
     \<Rightarrow> tool_result list \<times> bool \<times> trace" where
  "execute_blocks tool_manager [] st = st"
| "execute_blocks tool_manager (ToolUseBlock i name inp # bs) (tool_results, tool_error, tr) =
     (case execute_tool tool_manager tr name inp of
        (Inr tool_result, tr') \<Rightarrow>
          execute_blocks tool_manager bs
            (tool_results @
               [\<lparr>result_type = ''tool_result'', tool_use_id = i, result_content = tool_result\<rparr>],
             tool_error, tr')
      | (Inl e, tr') \<Rightarrow>
          execute_blocks tool_manager bs
            (tool_results @
               [\<lparr>result_type = ''tool_result'', tool_use_id = i,
                 result_content = ''Tool execution error: '' @ exn_str e\<rparr>],
             True, tr'))"
| "execute_blocks tool_manager (b # bs) st = execute_blocks tool_manager bs st"

definition fallback_message :: string where
  "fallback_message =
     ''I was unable to generate a complete response. Please try rephrasing your question.''"

text \<open>Lines 157 to 162: the text of the first block that has one, else the fallback.\<close>

fun extract_text :: "content_block list \<Rightarrow> string" where
  "extract_text [] = fallback_message"
| "extract_text (TextBlock t # bs) = t"
| "extract_text (b # bs) = extract_text bs"

function handle_tool_execution ::
  "generator \<Rightarrow> response \<Rightarrow> api_params \<Rightarrow> tool_manager \<Rightarrow> int \<Rightarrow> trace
     \<Rightarrow> (exn + string) \<times> trace" where
  "handle_tool_execution self initial_response base_params tool_manager round tr =
     (let messages0 = messages base_params @
            [\<lparr>role = ''assistant'', message_content = Blocks (content initial_response)\<rparr>];
          (tool_results, tool_error, tr1) =
            execute_blocks tool_manager (content initial_response) ([], False, tr);
          messages1 =
            (if tool_results \<noteq> []
             then messages0 @ [\<lparr>role = ''user'', message_content = ToolResults tool_results\<rparr>]
             else messages0);
          include_tools = (round < MAX_TOOL_ROUNDS \<and> \<not> tool_error);
          followup_params =
            \<lparr>model = self_model self, temperature = 0, max_tokens = 800,
             messages = messages1, system = system base_params,
             tools = (if include_tools \<and> tools base_params \<noteq> None
                      then tools base_params else None),
             tool_choice = (if include_tools \<and> tools base_params \<noteq> None
                            then Some ''auto'' else None)\<rparr>
      in case messages_create self tr1 followup_params of
           (Inl e, tr2) \<Rightarrow> (Inl e, tr2)
         | (Inr followup_response, tr2) \<Rightarrow>
             if stop_reason followup_response = ''tool_use'' \<and> include_tools
             then handle_tool_execution self followup_response
                    (base_params\<lparr>messages := messages1\<rparr>) tool_manager (round + 1) tr2
             else (Inr (extract_text (content followup_response)), tr2))"
  by pat_completeness auto
termination
  by (relation "measure (\<lambda>(self, r, bp, tm, round, tr). nat (MAX_TOOL_ROUNDS - round))")
     auto

declare handle_tool_execution.simps [simp del]

subsection \<open>\<^verbatim>\<open>generate_response\<close>\<close>

text \<open>
  \<^verbatim>\<open>response.content[0].text\<close> (line 90): an \<^verbatim>\<open>IndexError\<close> on an empty content list,
  an \<^verbatim>\<open>AttributeError\<close> on a first block without a \<^verbatim>\<open>text\<close> attribute.
\<close>

fun first_text :: "content_block list \<Rightarrow> exn + string" where
  "first_text [] = Inl (Exn ''IndexError'' ''list index out of range'')"
| "first_text (TextBlock t # bs) = Inr t"
| "first_text (b # bs) =
     Inl (Exn ''AttributeError''
            ([CHR 0x27] @ block_class b @ [CHR 0x27] @ '' object has no attribute '' @
             [CHR 0x27] @ ''text'' @ [CHR 0x27]))"

text \<open>
  \<^verbatim>\<open>conversation_history\<close>, \<^verbatim>\<open>tools\<close> and \<^verbatim>\<open>tool_manager\<close> are optional and tested
  for truthiness: \<open>None\<close>, the empty string and the empty list are false.
\<close>

definition generate_response ::
  "generator \<Rightarrow> string \<Rightarrow> string option \<Rightarrow> tool_schema list option \<Rightarrow> tool_manager option
     \<Rightarrow> trace \<Rightarrow> (exn + string) \<times> trace" where
  "generate_response self query conversation_history tools_arg tool_manager tr =
     (let system_content =
            (case conversation_history of
               Some h \<Rightarrow>
                 if h \<noteq> []
                 then SYSTEM_PROMPT @ ''\<newline>\<newline>Previous conversation:\<newline>'' @ h
                 else SYSTEM_PROMPT
             | None \<Rightarrow> SYSTEM_PROMPT);
          with_tools = (case tools_arg of Some ts \<Rightarrow> ts \<noteq> [] | None \<Rightarrow> False);
          api_params =
            \<lparr>model = self_model self, temperature = 0, max_tokens = 800,
             messages = [\<lparr>role = ''user'', message_content = Text query\<rparr>],
             system = system_content,
             tools = (if with_tools then tools_arg else None),
             tool_choice = (if with_tools then Some ''auto'' else None)\<rparr>
      in case messages_create self tr api_params of
           (Inl e, tr1) \<Rightarrow> (Inl e, tr1)
         | (Inr response, tr1) \<Rightarrow>
             (case tool_manager of
                Some tm \<Rightarrow>
                  if stop_reason response = ''tool_use''
                  then handle_tool_execution self response api_params tm 1 tr1
                  else (first_text (content response), tr1)
              | None \<Rightarrow> (first_text (content response), tr1)))"

section \<open>Auxiliary definitions for the proofs\<close>

text \<open>
  The tool requests of a turn in the order of the content blocks: the identifier of each
  tool-use block with the call (name and input) it asks for.
\<close>

fun tool_uses :: "content_block list \<Rightarrow> (string \<times> tool_call) list" where
  "tool_uses [] = []"
| "tool_uses (ToolUseBlock i name inp # bs) = (i, (name, inp)) # tool_uses bs"
| "tool_uses (b # bs) = tool_uses bs"

text \<open>
  What one pass of the loop computes, written without the loop state: the text recorded for
  the outcome of a tool call, the tool results of a turn given the calls the tool manager
  has seen before, and whether some call of the turn raises.
\<close>

definition result_text :: "exn + string \<Rightarrow> string" where
  "result_text out = (case out of Inr s \<Rightarrow> s | Inl e \<Rightarrow> ''Tool execution error: '' @ exn_str e)"

fun expected_results :: "tool_manager \<Rightarrow> tool_call list \<Rightarrow> (string \<times> tool_call) list \<Rightarrow> tool_result list" where
  "expected_results tm prev [] = []"
| "expected_results tm prev (u # us) =
     \<lparr>result_type = ''tool_result'', tool_use_id = fst u,
      result_content = result_text (tm (prev @ [snd u]))\<rparr> # expected_results tm (prev @ [snd u]) us"

fun any_raises :: "tool_manager \<Rightarrow> tool_call list \<Rightarrow> (string \<times> tool_call) list \<Rightarrow> bool" where
  "any_raises tm prev [] = False"
| "any_raises tm prev (u # us) = (isl (tm (prev @ [snd u])) \<or> any_raises tm (prev @ [snd u]) us)"

text \<open>
  The values of the local variables of \<^verbatim>\<open>_handle_tool_execution\<close> in one round, as
  functions of its arguments: \<^verbatim>\<open>tool_error\<close>, \<^verbatim>\<open>tool_results\<close>, \<^verbatim>\<open>messages\<close>,
  \<^verbatim>\<open>include_tools\<close>, \<^verbatim>\<open>followup_params\<close>, and the trace after the follow-up call.
\<close>

definition round_error :: "tool_manager \<Rightarrow> response \<Rightarrow> trace \<Rightarrow> bool" where
  "round_error tm r tr = any_raises tm (tool_calls tr) (tool_uses (content r))"

definition round_results :: "tool_manager \<Rightarrow> response \<Rightarrow> trace \<Rightarrow> tool_result list" where
  "round_results tm r tr = expected_results tm (tool_calls tr) (tool_uses (content r))"

definition round_messages :: "api_params \<Rightarrow> tool_manager \<Rightarrow> response \<Rightarrow> trace \<Rightarrow> message list" where
  "round_messages bp tm r tr =
     messages bp @ [\<lparr>role = ''assistant'', message_content = Blocks (content r)\<rparr>] @
     (if round_results tm r tr \<noteq> []
      then [\<lparr>role = ''user'', message_content = ToolResults (round_results tm r tr)\<rparr>]
      else [])"

definition round_include :: "tool_manager \<Rightarrow> response \<Rightarrow> int \<Rightarrow> trace \<Rightarrow> bool" where
  "round_include tm r round tr \<longleftrightarrow> round < MAX_TOOL_ROUNDS \<and> \<not> round_error tm r tr"

definition followup ::
  "generator \<Rightarrow> api_params \<Rightarrow> tool_manager \<Rightarrow> response \<Rightarrow> int \<Rightarrow> trace \<Rightarrow> api_params" where
  "followup self bp tm r round tr =
     \<lparr>model = self_model self, temperature = 0, max_tokens = 800,
      messages = round_messages bp tm r tr, system = system bp,
      tools = (if round_include tm r round tr \<and> tools bp \<noteq> None then tools bp else None),
      tool_choice = (if round_include tm r round tr \<and> tools bp \<noteq> None
                     then Some ''auto'' else None)\<rparr>"

definition after_round ::
  "generator \<Rightarrow> api_params \<Rightarrow> tool_manager \<Rightarrow> response \<Rightarrow> int \<Rightarrow> trace \<Rightarrow> trace" where
  "after_round self bp tm r round tr =
     \<lparr>llm_calls = llm_calls tr @ [followup self bp tm r round tr],
      tool_calls = tool_calls tr @ map snd (tool_uses (content r))\<rparr>"

text \<open>
  The LLM calls made between two traces, and the number of assistant turns in a message
  history.
\<close>

definition new_calls :: "trace \<Rightarrow> trace \<Rightarrow> api_params list" where
  "new_calls tr tr' = drop (length (llm_calls tr)) (llm_calls tr')"

definition assistant_turns :: "message list \<Rightarrow> nat" where
  "assistant_turns ms = length (filter (\<lambda>m. role m = ''assistant'') ms)"

text \<open>
  The dictionary \<^verbatim>\<open>api_params\<close> of \<^verbatim>\<open>generate_response\<close> (lines 64 to 80) and the
  trace after the first call.
\<close>

definition first_request ::
  "generator \<Rightarrow> string \<Rightarrow> string option \<Rightarrow> tool_schema list option \<Rightarrow> api_params" where
  "first_request self query conversation_history tools_arg =
     \<lparr>model = self_model self, temperature = 0, max_tokens = 800,
      messages = [\<lparr>role = ''user'', message_content = Text query\<rparr>],
      system =
        (case conversation_history of
           Some h \<Rightarrow>
             if h \<noteq> []
             then SYSTEM_PROMPT @ ''\<newline>\<newline>Previous conversation:\<newline>'' @ h
             else SYSTEM_PROMPT
         | None \<Rightarrow> SYSTEM_PROMPT),
      tools = (if (case tools_arg of Some ts \<Rightarrow> ts \<noteq> [] | None \<Rightarrow> False)
               then tools_arg else None),
      tool_choice = (if (case tools_arg of Some ts \<Rightarrow> ts \<noteq> [] | None \<Rightarrow> False)
                     then Some ''auto'' else None)\<rparr>"

definition after_first ::
  "generator \<Rightarrow> string \<Rightarrow> string option \<Rightarrow> tool_schema list option \<Rightarrow> trace \<Rightarrow> trace" where
  "after_first self query conversation_history tools_arg tr =
     tr\<lparr>llm_calls := llm_calls tr @ [first_request self query conversation_history tools_arg]\<rparr>"

section \<open>Inputs of the test suite\<close>

text \<open>
  Responses, clients and tool managers after the fixtures of
  \<^verbatim>\<open>backend/tests/test_ai_generator.py\<close>: a client with a fixed \<^verbatim>\<open>return_value\<close>, a client
  with a \<^verbatim>\<open>side_effect\<close> list, a tool that returns and a tool that raises.
\<close>

definition empty_trace :: trace where
  "empty_trace = \<lparr>llm_calls = [], tool_calls = []\<rparr>"

definition tool_response_1 :: response where
  "tool_response_1 =
     \<lparr>content = [ToolUseBlock ''t1'' ''search_course_content'' [(''query'', JStr ''AI'')]],
      stop_reason = ''tool_use''\<rparr>"

definition text_response :: response where
  "text_response = \<lparr>content = [TextBlock ''AI is great''], stop_reason = ''end_turn''\<rparr>"

definition thinking_response :: response where
  "thinking_response = \<lparr>content = [ThinkingBlock ''hm''], stop_reason = ''end_turn''\<rparr>"

definition test_generator :: "llm \<Rightarrow> generator" where
  "test_generator c = \<lparr>client = c, self_model = ''claude-sonnet-4-20250514''\<rparr>"

definition side_effect :: "response list \<Rightarrow> llm" where
  "side_effect rs calls =
     (if calls \<noteq> [] \<and> length calls \<le> length rs then Inr (rs ! (length calls - 1))
      else Inl (Exn ''StopIteration'' []))"

definition return_value :: "response \<Rightarrow> llm" where
  "return_value r calls = Inr r"

definition search_tool :: tool_manager where
  "search_tool calls = Inr ''search results''"

definition failing_tool :: tool_manager where
  "failing_tool calls = Inl (Exn ''Exception'' ''DB connection failed'')"

definition test_tools :: "tool_schema list" where
  "test_tools = [''search_course_content'']"

definition text_and_tool_response :: response where
  "text_and_tool_response =
     \<lparr>content = [TextBlock ''Let me search'',
                 ToolUseBlock ''t1'' ''search_course_content'' [(''query'', JStr ''AI'')]],
      stop_reason = ''tool_use''\<rparr>"

definition two_tool_response :: response where
  "two_tool_response =
     \<lparr>content = [ToolUseBlock ''t1'' ''search_course_content'' [(''query'', JStr ''q1'')],
                 ToolUseBlock ''t2'' ''search_course_content'' [(''query'', JStr ''q2''),
                   (''lesson_number'', JInt 0)]],
      stop_reason = ''tool_use''\<rparr>"

definition tool_response_2 :: response where
  "tool_response_2 =
     \<lparr>content = [ToolUseBlock ''t2'' ''search_course_content'' [(''query'', JStr ''q2'')]],
      stop_reason = ''tool_use''\<rparr>"

section \<open>The retrieval side, modelled from the spec\<close>

text \<open>
  Modelled from the spec: \<^verbatim>\<open>VectorStore._build_filter\<close> of \<^verbatim>\<open>backend/vector_store.py\<close>,
  which is not among the sources (only its unit tests in \<^verbatim>\<open>backend/tests/test_unit.py\<close>
  are). Section 4.1: no filter if neither course name nor lesson number is given, a single
  equality filter if exactly one is given, the conjunction of both equality filters if both
  are given; lesson number 0 is a filter value like any other.
\<close>

datatype where_filter =
    CourseTitleEq string
  | LessonNumberEq int
  | And "where_filter list"

definition build_filter :: "string option \<Rightarrow> int option \<Rightarrow> where_filter option" where
  "build_filter course_title lesson_number =
     (case (course_title, lesson_number) of
        (None, None) \<Rightarrow> None
      | (Some c, None) \<Rightarrow> Some (CourseTitleEq c)
      | (None, Some n) \<Rightarrow> Some (LessonNumberEq n)
      | (Some c, Some n) \<Rightarrow> Some (And [CourseTitleEq c, LessonNumberEq n]))"

text \<open>
  Modelled from the spec: the class \<^verbatim>\<open>SearchResults\<close> of \<^verbatim>\<open>backend/vector_store.py\<close>,
  which is not among the sources. Section 3: three parallel sequences of the same length
  and an optional error string; when the error is set, the sequences are empty. The type of
  a distance is left open.
\<close>

record 'd search_results =
  documents :: "string list"
  metadata :: "(string \<times> json) list list"
  distances :: "'d list"
  error :: "string option"

text \<open>
  Modelled from the spec: the data invariant of section 3 on a \<^verbatim>\<open>SearchResults\<close> value.
\<close>

definition SearchResults_invariant :: "'d search_results \<Rightarrow> bool" where
  "SearchResults_invariant sr \<longleftrightarrow>
     length (metadata sr) = length (documents sr) \<and>
     length (distances sr) = length (documents sr) \<and>
     (error sr \<noteq> None \<longrightarrow> documents sr = [] \<and> metadata sr = [] \<and> distances sr = [])"

text \<open>
  Modelled from the spec: the factory \<^verbatim>\<open>SearchResults.empty(error_msg)\<close> for a failed
  search, and the emptiness check \<^verbatim>\<open>is_empty\<close>, which are not among the sources.
\<close>

definition SearchResults_empty :: "string \<Rightarrow> 'd search_results" where
  "SearchResults_empty error_msg =
     \<lparr>documents = [], metadata = [], distances = [], error = Some error_msg\<rparr>"




section \<open>Lemmas\<close>

subsection \<open>Content blocks\<close>

lemma block_type_tool_use:
  "block_type b = ''tool_use'' \<longleftrightarrow> (\<exists>i name inp. b = ToolUseBlock i name inp)"
  by (cases b) simp_all

lemma has_text_iff:
  "has_text b \<longleftrightarrow> (\<exists>t. b = TextBlock t)"
  by (cases b) simp_all

lemma length_tool_uses:
  "length (tool_uses bs) = length (filter (\<lambda>b. block_type b = ''tool_use'') bs)"
  by (induction bs rule: tool_uses.induct) simp_all

subsection \<open>The loop over the content blocks\<close>

lemma execute_blocks_eq:
  "execute_blocks tm bs (rs, err, tr) =
     (rs @ expected_results tm (tool_calls tr) (tool_uses bs),
      err \<or> any_raises tm (tool_calls tr) (tool_uses bs),
      tr\<lparr>tool_calls := tool_calls tr @ map snd (tool_uses bs)\<rparr>)"
proof (induction bs arbitrary: rs err tr)
  case Nil
  show ?case by simp
next
  case (Cons b bs)
  show ?case
  proof (cases b)
    case (ToolUseBlock i name inp)
    show ?thesis
    proof (cases "tm (tool_calls tr @ [(name, inp)])")
      case (Inl e)
      with ToolUseBlock Cons.IH show ?thesis
        by (simp add: execute_tool_def result_text_def)
    next
      case (Inr s)
      with ToolUseBlock Cons.IH show ?thesis
        by (simp add: execute_tool_def result_text_def)
    qed
  qed (simp_all add: Cons.IH)
qed

lemma length_expected_results [simp]:
  "length (expected_results tm prev us) = length us"
  by (induction us arbitrary: prev) simp_all

lemma nth_expected_results:
  "k < length us \<Longrightarrow>
   expected_results tm prev us ! k =
     \<lparr>result_type = ''tool_result'', tool_use_id = fst (us ! k),
      result_content = result_text (tm (prev @ map snd (take (Suc k) us)))\<rparr>"
proof (induction us arbitrary: prev k)
  case Nil
  then show ?case by simp
next
  case (Cons u us)
  show ?case
  proof (cases k)
    case 0
    then show ?thesis by simp
  next
    case (Suc j)
    with Cons.prems have "j < length us" by simp
    from Cons.IH [OF this, of "prev @ [snd u]"] Suc show ?thesis by simp
  qed
qed

lemma any_raises_iff:
  "any_raises tm prev us \<longleftrightarrow>
     (\<exists>k < length us. isl (tm (prev @ map snd (take (Suc k) us))))"
proof (induction us arbitrary: prev)
  case Nil
  show ?case by simp
next
  case (Cons u us)
  have "(\<exists>k < length (u # us). isl (tm (prev @ map snd (take (Suc k) (u # us))))) \<longleftrightarrow>
        isl (tm (prev @ [snd u])) \<or>
        (\<exists>j < length us. isl (tm ((prev @ [snd u]) @ map snd (take (Suc j) us))))"
    (is "?L \<longleftrightarrow> ?A \<or> ?B")
  proof
    assume ?L
    then obtain k where k: "k < length (u # us)"
      "isl (tm (prev @ map snd (take (Suc k) (u # us))))" by blast
    show "?A \<or> ?B"
    proof (cases k)
      case 0
      with k show ?thesis by simp
    next
      case (Suc j)
      with k have "j < length us" "isl (tm ((prev @ [snd u]) @ map snd (take (Suc j) us)))"
        by simp_all
      then show ?thesis by blast
    qed
  next
    assume "?A \<or> ?B"
    then show ?L
    proof
      assume ?A
      then have "isl (tm (prev @ map snd (take (Suc 0) (u # us))))" by simp
      then show ?L by (intro exI [of _ 0]) simp
    next
      assume ?B
      then obtain j where "j < length us"
        "isl (tm ((prev @ [snd u]) @ map snd (take (Suc j) us)))" by blast
      then have "Suc j < length (u # us)"
        "isl (tm (prev @ map snd (take (Suc (Suc j)) (u # us))))" by simp_all
      then show ?L by blast
    qed
  qed
  with Cons.IH [of "prev @ [snd u]"] show ?case by simp
qed

subsection \<open>One round of \<^verbatim>\<open>_handle_tool_execution\<close>\<close>

lemma round_execute_blocks:
  "execute_blocks tm (content r) ([], False, tr) =
     (round_results tm r tr, round_error tm r tr,
      tr\<lparr>tool_calls := tool_calls tr @ map snd (tool_uses (content r))\<rparr>)"
  by (simp add: execute_blocks_eq round_results_def round_error_def)

lemma fold_round_messages:
  "(if round_results tm r tr \<noteq> []
    then (messages bp @ [\<lparr>role = ''assistant'', message_content = Blocks (content r)\<rparr>]) @
         [\<lparr>role = ''user'', message_content = ToolResults (round_results tm r tr)\<rparr>]
    else messages bp @ [\<lparr>role = ''assistant'', message_content = Blocks (content r)\<rparr>]) =
   round_messages bp tm r tr"
  by (simp add: round_messages_def)

lemma fold_round_include:
  "(round < MAX_TOOL_ROUNDS \<and> \<not> round_error tm r tr) = round_include tm r round tr"
  by (simp add: round_include_def)

lemma fold_followup:
  "\<lparr>model = self_model self, temperature = 0, max_tokens = 800,
    messages = round_messages bp tm r tr, system = system bp,
    tools = (if round_include tm r round tr \<and> tools bp \<noteq> None then tools bp else None),
    tool_choice = (if round_include tm r round tr \<and> tools bp \<noteq> None
                   then Some ''auto'' else None)\<rparr> = followup self bp tm r round tr"
  by (simp add: followup_def)

lemma fold_after_round:
  "tr\<lparr>tool_calls := tool_calls tr @ map snd (tool_uses (content r)),
      llm_calls := llm_calls tr @ [followup self bp tm r round tr]\<rparr> =
   after_round self bp tm r round tr"
  by (simp add: after_round_def)

lemma llm_calls_after_round:
  "llm_calls (after_round self bp tm r round tr) =
     llm_calls tr @ [followup self bp tm r round tr]"
  by (simp add: after_round_def)

lemma tool_calls_after_round:
  "tool_calls (after_round self bp tm r round tr) =
     tool_calls tr @ map snd (tool_uses (content r))"
  by (simp add: after_round_def)

lemma llm_calls_tool_update:
  "llm_calls (tr\<lparr>tool_calls := cs\<rparr>) = llm_calls tr"
  by simp

lemma handle_unfold:
  "handle_tool_execution self r bp tm round tr =
     (case client self (llm_calls (after_round self bp tm r round tr)) of
        Inl e \<Rightarrow> (Inl e, after_round self bp tm r round tr)
      | Inr fr \<Rightarrow>
          if stop_reason fr = ''tool_use'' \<and> round_include tm r round tr
          then handle_tool_execution self fr (bp\<lparr>messages := round_messages bp tm r tr\<rparr>) tm
                 (round + 1) (after_round self bp tm r round tr)
          else (Inr (extract_text (content fr)), after_round self bp tm r round tr))"
  apply (subst handle_tool_execution.simps)
  apply (simp only: round_execute_blocks Let_def prod.case messages_create_def)
  apply (simp only: fold_round_messages fold_round_include)
  apply (simp only: fold_followup llm_calls_tool_update)
  apply (simp only: fold_after_round llm_calls_after_round)
  done

text \<open>
  The recursion of \<^verbatim>\<open>_handle_tool_execution\<close> goes from \<open>round\<close> to \<open>round + 1\<close> and
  only while \<open>round < MAX_TOOL_ROUNDS\<close>: induction on the distance to the bound.
\<close>

lemma round_induct:
  assumes step: "\<And>r bp round tr.
     (\<And>r' bp' tr'. round < MAX_TOOL_ROUNDS \<Longrightarrow> P r' bp' (round + 1) tr') \<Longrightarrow> P r bp round tr"
  shows "P r bp round tr"
proof (induction "nat (MAX_TOOL_ROUNDS - round)" arbitrary: r bp round tr)
  case 0
  then have "\<not> round < MAX_TOOL_ROUNDS" by simp
  then show ?case by - (rule step, simp)
next
  case (Suc n)
  show ?case
  proof (rule step)
    fix r' bp' tr'
    assume "round < MAX_TOOL_ROUNDS"
    with Suc.hyps(2) have "n = nat (MAX_TOOL_ROUNDS - (round + 1))" by simp
    then show "P r' bp' (round + 1) tr'" by (rule Suc.hyps(1))
  qed
qed

lemma handle_cases:
  obtains (raised) e where
      "client self (llm_calls (after_round self bp tm r round tr)) = Inl e"
      "handle_tool_execution self r bp tm round tr = (Inl e, after_round self bp tm r round tr)"
  | (again) fr where
      "client self (llm_calls (after_round self bp tm r round tr)) = Inr fr"
      "stop_reason fr = ''tool_use''" "round_include tm r round tr" "round < MAX_TOOL_ROUNDS"
      "handle_tool_execution self r bp tm round tr =
         handle_tool_execution self fr (bp\<lparr>messages := round_messages bp tm r tr\<rparr>) tm
           (round + 1) (after_round self bp tm r round tr)"
  | (final) fr where
      "client self (llm_calls (after_round self bp tm r round tr)) = Inr fr"
      "\<not> (stop_reason fr = ''tool_use'' \<and> round_include tm r round tr)"
      "handle_tool_execution self r bp tm round tr =
         (Inr (extract_text (content fr)), after_round self bp tm r round tr)"
proof (cases "client self (llm_calls (after_round self bp tm r round tr))")
  case (Inl e)
  then have "handle_tool_execution self r bp tm round tr =
      (Inl e, after_round self bp tm r round tr)"
    by (subst handle_unfold) simp
  with Inl show ?thesis by (rule raised)
next
  case (Inr fr)
  show ?thesis
  proof (cases "stop_reason fr = ''tool_use'' \<and> round_include tm r round tr")
    case True
    with Inr have "handle_tool_execution self r bp tm round tr =
         handle_tool_execution self fr (bp\<lparr>messages := round_messages bp tm r tr\<rparr>) tm
           (round + 1) (after_round self bp tm r round tr)"
      by (subst handle_unfold) simp
    moreover from True have "round < MAX_TOOL_ROUNDS" by (simp add: round_include_def)
    ultimately show ?thesis using Inr True by (intro again [of fr]) simp_all
  next
    case False
    with Inr have "handle_tool_execution self r bp tm round tr =
         (Inr (extract_text (content fr)), after_round self bp tm r round tr)"
      by (subst handle_unfold) auto
    with Inr False show ?thesis by (rule final)
  qed
qed

lemma handle_llm_calls:
  "\<exists>rest. llm_calls (snd (handle_tool_execution self r bp tm round tr)) =
     llm_calls tr @ followup self bp tm r round tr # rest"
proof (induction r bp round tr rule: round_induct)
  case (1 r bp round tr)
  show ?case
  proof (cases rule: handle_cases [of self bp tm r round tr])
    case (raised e)
    then show ?thesis by (simp add: llm_calls_after_round)
  next
    case (again fr)
    from 1 [OF again(4), where r' = fr
        and bp' = "bp\<lparr>messages := round_messages bp tm r tr\<rparr>"
        and tr' = "after_round self bp tm r round tr"]
    show ?thesis by (auto simp: again(5) llm_calls_after_round)
  next
    case (final fr)
    then show ?thesis by (simp add: llm_calls_after_round)
  qed
qed

lemma handle_tool_calls:
  "\<exists>more. tool_calls (snd (handle_tool_execution self r bp tm round tr)) =
     tool_calls tr @ map snd (tool_uses (content r)) @ more"
proof (induction r bp round tr rule: round_induct)
  case (1 r bp round tr)
  show ?case
  proof (cases rule: handle_cases [of self bp tm r round tr])
    case (raised e)
    then show ?thesis by (simp add: tool_calls_after_round)
  next
    case (again fr)
    from 1 [OF again(4), where r' = fr
        and bp' = "bp\<lparr>messages := round_messages bp tm r tr\<rparr>"
        and tr' = "after_round self bp tm r round tr"]
    show ?thesis by (auto simp: again(5) tool_calls_after_round)
  next
    case (final fr)
    then show ?thesis by (simp add: tool_calls_after_round)
  qed
qed

subsection \<open>Outbound calls of the rounds\<close>

lemma new_calls_after_round:
  "new_calls tr (after_round self bp tm r round tr) = [followup self bp tm r round tr]"
  by (simp add: new_calls_def llm_calls_after_round)

lemma new_calls_handle:
  "\<exists>rest. new_calls tr (snd (handle_tool_execution self r bp tm round tr)) =
     followup self bp tm r round tr # rest"
  using handle_llm_calls [of self r bp tm round tr] by (auto simp: new_calls_def)

lemma new_calls_again:
  "new_calls tr (snd (handle_tool_execution self fr bp' tm round'
       (after_round self bp tm r round tr))) =
   followup self bp tm r round tr #
   new_calls (after_round self bp tm r round tr)
     (snd (handle_tool_execution self fr bp' tm round' (after_round self bp tm r round tr)))"
  using handle_llm_calls [of self fr bp' tm round' "after_round self bp tm r round tr"]
  by (auto simp: new_calls_def llm_calls_after_round)

lemma tools_followup:
  "tools (followup self bp tm r round tr) \<noteq> None \<Longrightarrow> round_include tm r round tr"
  by (simp add: followup_def split: if_splits)

lemma messages_followup:
  "messages (followup self bp tm r round tr) = round_messages bp tm r tr"
  by (simp add: followup_def)

lemma assistant_turns_round_messages:
  "assistant_turns (round_messages bp tm r tr) = Suc (assistant_turns (messages bp))"
  by (simp add: assistant_turns_def round_messages_def)

lemma handle_count:
  "int (length (new_calls tr (snd (handle_tool_execution self r bp tm round tr))))
     \<le> max 1 (MAX_TOOL_ROUNDS + 1 - round)"
proof (induction r bp round tr rule: round_induct)
  case (1 r bp round tr)
  show ?case
  proof (cases rule: handle_cases [of self bp tm r round tr])
    case (raised e)
    then show ?thesis by (simp add: new_calls_after_round)
  next
    case (again fr)
    from 1 [OF again(4), where r' = fr
        and bp' = "bp\<lparr>messages := round_messages bp tm r tr\<rparr>"
        and tr' = "after_round self bp tm r round tr"] again(4)
    show ?thesis by (simp add: again(5) new_calls_again)
  next
    case (final fr)
    then show ?thesis by (simp add: new_calls_after_round)
  qed
qed

lemma handle_tools_count:
  "int (length (filter (\<lambda>p. tools p \<noteq> None)
      (new_calls tr (snd (handle_tool_execution self r bp tm round tr)))))
     \<le> max 0 (MAX_TOOL_ROUNDS - round)"
proof (induction r bp round tr rule: round_induct)
  case (1 r bp round tr)
  have one: "tools (followup self bp tm r round tr) \<noteq> None \<Longrightarrow> round < MAX_TOOL_ROUNDS"
    by (drule tools_followup) (simp add: round_include_def)
  show ?case
  proof (cases rule: handle_cases [of self bp tm r round tr])
    case (raised e)
    with one show ?thesis by (auto simp: new_calls_after_round)
  next
    case (again fr)
    from 1 [OF again(4), where r' = fr
        and bp' = "bp\<lparr>messages := round_messages bp tm r tr\<rparr>"
        and tr' = "after_round self bp tm r round tr"] again(4)
    show ?thesis by (simp add: again(5) new_calls_again)
  next
    case (final fr)
    with one show ?thesis by (auto simp: new_calls_after_round)
  qed
qed

lemma handle_last_no_tools:
  assumes always: "\<And>calls. \<exists>fr. client self calls = Inr fr \<and> stop_reason fr = ''tool_use''"
  shows "tools (last (llm_calls (snd (handle_tool_execution self r bp tm round tr)))) = None"
proof (induction r bp round tr rule: round_induct)
  case (1 r bp round tr)
  show ?case
  proof (cases rule: handle_cases [of self bp tm r round tr])
    case (raised e)
    with always [of "llm_calls (after_round self bp tm r round tr)"] show ?thesis by simp
  next
    case (again fr)
    from 1 [OF again(4), where r' = fr
        and bp' = "bp\<lparr>messages := round_messages bp tm r tr\<rparr>"
        and tr' = "after_round self bp tm r round tr"]
    show ?thesis by (simp add: again(5))
  next
    case (final fr)
    with always [of "llm_calls (after_round self bp tm r round tr)"]
    have "\<not> round_include tm r round tr" by simp
    then have "tools (followup self bp tm r round tr) = None"
      using tools_followup by blast
    with final show ?thesis by (simp add: llm_calls_after_round)
  qed
qed

lemma handle_assistant_turns:
  "assistant_turns (messages (last (llm_calls (snd (handle_tool_execution self r bp tm round tr)))))
     = assistant_turns (messages bp) +
       length (new_calls tr (snd (handle_tool_execution self r bp tm round tr)))"
proof (induction r bp round tr rule: round_induct)
  case (1 r bp round tr)
  show ?case
  proof (cases rule: handle_cases [of self bp tm r round tr])
    case (raised e)
    then show ?thesis
      by (simp add: new_calls_after_round llm_calls_after_round messages_followup
          assistant_turns_round_messages)
  next
    case (again fr)
    from 1 [OF again(4), where r' = fr
        and bp' = "bp\<lparr>messages := round_messages bp tm r tr\<rparr>"
        and tr' = "after_round self bp tm r round tr"]
    show ?thesis
      by (simp add: again(5) new_calls_again assistant_turns_round_messages)
  next
    case (final fr)
    then show ?thesis
      by (simp add: new_calls_after_round llm_calls_after_round messages_followup
          assistant_turns_round_messages)
  qed
qed

lemma handle_no_raise:
  assumes answers: "\<And>calls. \<exists>fr. client self calls = Inr fr"
  shows "\<exists>s. fst (handle_tool_execution self r bp tm round tr) = Inr s"
proof (induction r bp round tr rule: round_induct)
  case (1 r bp round tr)
  show ?case
  proof (cases rule: handle_cases [of self bp tm r round tr])
    case (raised e)
    with answers [of "llm_calls (after_round self bp tm r round tr)"] show ?thesis by simp
  next
    case (again fr)
    from 1 [OF again(4), where r' = fr
        and bp' = "bp\<lparr>messages := round_messages bp tm r tr\<rparr>"
        and tr' = "after_round self bp tm r round tr"]
    show ?thesis by (simp add: again(5))
  next
    case (final fr)
    then show ?thesis by simp
  qed
qed

lemma extract_text_fallback:
  "list_all (\<lambda>b. \<not> has_text b) bs \<Longrightarrow> extract_text bs = fallback_message"
  by (induction bs rule: extract_text.induct) simp_all

lemma handle_fallback:
  assumes "client self (llm_calls (snd (handle_tool_execution self r bp tm round tr))) = Inr fr"
    and "list_all (\<lambda>b. \<not> has_text b) (content fr)"
  shows "fst (handle_tool_execution self r bp tm round tr) = Inr fallback_message"
  using assms(1)
proof (induction r bp round tr rule: round_induct)
  case (1 r bp round tr)
  show ?case
  proof (cases rule: handle_cases [of self bp tm r round tr])
    case (raised e)
    with "1.prems" show ?thesis by simp
  next
    case (again fr')
    from "1.prems" have "client self (llm_calls (snd (handle_tool_execution self fr'
        (bp\<lparr>messages := round_messages bp tm r tr\<rparr>) tm (round + 1)
        (after_round self bp tm r round tr)))) = Inr fr"
      by (simp add: again(5))
    from "1.IH" [OF again(4) this] show ?thesis by (simp add: again(5))
  next
    case (final fr')
    with "1.prems" have "fr' = fr" by simp
    with final assms(2) show ?thesis by (simp add: extract_text_fallback)
  qed
qed

subsection \<open>\<^verbatim>\<open>generate_response\<close>\<close>

lemma llm_calls_after_first:
  "llm_calls (after_first self q h ts tr) = llm_calls tr @ [first_request self q h ts]"
  by (simp add: after_first_def)

lemma tool_calls_after_first:
  "tool_calls (after_first self q h ts tr) = tool_calls tr"
  by (simp add: after_first_def)

lemma generate_unfold:
  "generate_response self q h ts tmo tr =
     (case client self (llm_calls (after_first self q h ts tr)) of
        Inl e \<Rightarrow> (Inl e, after_first self q h ts tr)
      | Inr r \<Rightarrow>
          (case tmo of
             Some tm \<Rightarrow>
               if stop_reason r = ''tool_use''
               then handle_tool_execution self r (first_request self q h ts) tm 1
                      (after_first self q h ts tr)
               else (first_text (content r), after_first self q h ts tr)
           | None \<Rightarrow> (first_text (content r), after_first self q h ts tr)))"
  apply (simp only: generate_response_def Let_def messages_create_def prod.case)
  apply (simp only: first_request_def [symmetric])
  apply (simp only: after_first_def [symmetric] llm_calls_after_first)
  done

lemma generate_cases:
  obtains (raised) e where
      "client self (llm_calls (after_first self q h ts tr)) = Inl e"
      "generate_response self q h ts tmo tr = (Inl e, after_first self q h ts tr)"
  | (tools) r tm where
      "client self (llm_calls (after_first self q h ts tr)) = Inr r"
      "stop_reason r = ''tool_use''" "tmo = Some tm"
      "generate_response self q h ts tmo tr =
         handle_tool_execution self r (first_request self q h ts) tm 1
           (after_first self q h ts tr)"
  | (direct) r where
      "client self (llm_calls (after_first self q h ts tr)) = Inr r"
      "\<not> (stop_reason r = ''tool_use'' \<and> tmo \<noteq> None)"
      "generate_response self q h ts tmo tr =
         (first_text (content r), after_first self q h ts tr)"
proof (cases "client self (llm_calls (after_first self q h ts tr))")
  case (Inl e)
  then have "generate_response self q h ts tmo tr = (Inl e, after_first self q h ts tr)"
    by (subst generate_unfold) simp
  with Inl show ?thesis by (rule raised)
next
  case (Inr r)
  show ?thesis
  proof (cases "stop_reason r = ''tool_use'' \<and> tmo \<noteq> None")
    case True
    then obtain tm where tm: "tmo = Some tm" by blast
    with Inr True have "generate_response self q h ts tmo tr =
         handle_tool_execution self r (first_request self q h ts) tm 1
           (after_first self q h ts tr)"
      by (subst generate_unfold) simp
    with Inr True tm show ?thesis by (intro tools [of r tm]) simp_all
  next
    case False
    with Inr have "generate_response self q h ts tmo tr =
         (first_text (content r), after_first self q h ts tr)"
      by (subst generate_unfold) (auto split: option.splits)
    with Inr False show ?thesis by (rule direct)
  qed
qed

lemma new_calls_after_first:
  "new_calls tr (after_first self q h ts tr) = [first_request self q h ts]"
  by (simp add: new_calls_def llm_calls_after_first)

lemma new_calls_generate_tools:
  "new_calls tr (snd (handle_tool_execution self r bp tm round (after_first self q h ts tr))) =
   first_request self q h ts #
   new_calls (after_first self q h ts tr)
     (snd (handle_tool_execution self r bp tm round (after_first self q h ts tr)))"
  using handle_llm_calls [of self r bp tm round "after_first self q h ts tr"]
  by (auto simp: new_calls_def llm_calls_after_first)

lemma generate_llm_calls:
  "\<exists>rest. llm_calls (snd (generate_response self q h ts tmo tr)) =
     llm_calls tr @ first_request self q h ts # rest"
proof (cases rule: generate_cases [of self q h ts tr tmo])
  case (raised e)
  then show ?thesis by (simp add: llm_calls_after_first)
next
  case (tools r tm)
  from handle_llm_calls [of self r "first_request self q h ts" tm 1 "after_first self q h ts tr"]
  show ?thesis by (auto simp: tools(4) llm_calls_after_first)
next
  case (direct r)
  then show ?thesis by (simp add: llm_calls_after_first)
qed

lemma first_call_history:
  "take (Suc (length (llm_calls tr))) (llm_calls (snd (generate_response self q h ts tmo tr))) =
     llm_calls (after_first self q h ts tr)"
  using generate_llm_calls [of self q h ts tmo tr] by (auto simp: llm_calls_after_first)

lemma first_call_params:
  "llm_calls (snd (generate_response self q h ts tmo tr)) ! length (llm_calls tr) =
     first_request self q h ts"
  using generate_llm_calls [of self q h ts tmo tr] by (auto simp: nth_append)

section \<open>The scenarios of the test suite, evaluated\<close>

lemma test_single_tool_round:
  "generate_response (test_generator (side_effect [tool_response_1, text_response]))
     ''What is AI?'' None (Some test_tools) (Some search_tool) empty_trace =
   (Inr ''AI is great'',
    \<lparr>llm_calls =
       [\<lparr>model = ''claude-sonnet-4-20250514'', temperature = 0, max_tokens = 800,
         messages = [\<lparr>role = ''user'', message_content = Text ''What is AI?''\<rparr>],
         system = SYSTEM_PROMPT, tools = Some test_tools, tool_choice = Some ''auto''\<rparr>,
        \<lparr>model = ''claude-sonnet-4-20250514'', temperature = 0, max_tokens = 800,
         messages =
           [\<lparr>role = ''user'', message_content = Text ''What is AI?''\<rparr>,
            \<lparr>role = ''assistant'', message_content = Blocks (content tool_response_1)\<rparr>,
            \<lparr>role = ''user'', message_content = ToolResults
               [\<lparr>result_type = ''tool_result'', tool_use_id = ''t1'',
                 result_content = ''search results''\<rparr>]\<rparr>],
         system = SYSTEM_PROMPT, tools = Some test_tools, tool_choice = Some ''auto''\<rparr>],
     tool_calls = [(''search_course_content'', [(''query'', JStr ''AI'')])]\<rparr>)"
  by (simp add: generate_response_def handle_tool_execution.simps messages_create_def
      execute_tool_def test_generator_def side_effect_def tool_response_1_def
      text_response_def search_tool_def empty_trace_def test_tools_def MAX_TOOL_ROUNDS_def)

lemma test_max_rounds_strips_tools:
  "map tools (llm_calls (snd (generate_response
     (test_generator (side_effect [tool_response_1, tool_response_2, text_response]))
     ''complex query'' None (Some test_tools) (Some search_tool) empty_trace))) =
   [Some test_tools, Some test_tools, None] \<and>
   fst (generate_response
     (test_generator (side_effect [tool_response_1, tool_response_2, text_response]))
     ''complex query'' None (Some test_tools) (Some search_tool) empty_trace) =
   Inr ''AI is great''"
  by (simp add: generate_response_def handle_tool_execution.simps messages_create_def
      execute_tool_def test_generator_def side_effect_def tool_response_1_def
      tool_response_2_def
      text_response_def search_tool_def empty_trace_def test_tools_def MAX_TOOL_ROUNDS_def)

lemma test_tool_exception_stops_chain:
  "generate_response (test_generator (side_effect [tool_response_1, text_response]))
     ''search'' None (Some test_tools) (Some failing_tool) empty_trace =
   (Inr ''AI is great'',
    \<lparr>llm_calls =
       [\<lparr>model = ''claude-sonnet-4-20250514'', temperature = 0, max_tokens = 800,
         messages = [\<lparr>role = ''user'', message_content = Text ''search''\<rparr>],
         system = SYSTEM_PROMPT, tools = Some test_tools, tool_choice = Some ''auto''\<rparr>,
        \<lparr>model = ''claude-sonnet-4-20250514'', temperature = 0, max_tokens = 800,
         messages =
           [\<lparr>role = ''user'', message_content = Text ''search''\<rparr>,
            \<lparr>role = ''assistant'', message_content = Blocks (content tool_response_1)\<rparr>,
            \<lparr>role = ''user'', message_content = ToolResults
               [\<lparr>result_type = ''tool_result'', tool_use_id = ''t1'',
                 result_content = ''Tool execution error: DB connection failed''\<rparr>]\<rparr>],
         system = SYSTEM_PROMPT, tools = None, tool_choice = None\<rparr>],
     tool_calls = [(''search_course_content'', [(''query'', JStr ''AI'')])]\<rparr>)"
  by (simp add: generate_response_def handle_tool_execution.simps messages_create_def
      execute_tool_def test_generator_def side_effect_def tool_response_1_def
      text_response_def failing_tool_def empty_trace_def test_tools_def MAX_TOOL_ROUNDS_def)

section \<open>Claims\<close>

text \<open>
  C8. Direct answer: when the first LLM response does not have the stop reason
  \<^verbatim>\<open>"tool_use"\<close> and starts with a text block, \<^verbatim>\<open>generate_response\<close> makes exactly one
  outbound LLM call, executes no tool, and returns exactly the text of that block. The first
  response is the client's answer to the call history up to and including the first request
  of this query.
\<close>

theorem direct_answer:
  assumes "client self (take (Suc (length (llm_calls tr)))
             (llm_calls (snd (generate_response self query history tools_arg tmo tr)))) = Inr r"
    and "stop_reason r \<noteq> ''tool_use''"
    and "content r = TextBlock t # bs"
  shows "fst (generate_response self query history tools_arg tmo tr) = Inr t \<and>
         length (llm_calls (snd (generate_response self query history tools_arg tmo tr))) =
           Suc (length (llm_calls tr)) \<and>
         tool_calls (snd (generate_response self query history tools_arg tmo tr)) =
           tool_calls tr"
proof -
  from assms(1) have first:
    "client self (llm_calls (after_first self query history tools_arg tr)) = Inr r"
    by (simp only: first_call_history)
  show ?thesis
  proof (cases rule: generate_cases [of self query history tools_arg tr tmo])
    case (raised e)
    with first show ?thesis by simp
  next
    case (tools r' tm)
    with first assms(2) show ?thesis by simp
  next
    case (direct r')
    with first have "r' = r" by simp
    with direct assms(3) show ?thesis
      by (simp add: llm_calls_after_first tool_calls_after_first)
  qed
qed

theorem direct_answer_witness:
  "client (test_generator (return_value text_response))
     (take (Suc (length (llm_calls empty_trace)))
        (llm_calls (snd (generate_response (test_generator (return_value text_response))
           ''hello'' None (Some [''search_course_content'']) (Some search_tool) empty_trace))))
     = Inr text_response \<and>
   stop_reason text_response \<noteq> ''tool_use'' \<and>
   content text_response = TextBlock ''AI is great'' # [] \<and>
   fst (generate_response (test_generator (return_value text_response))
          ''hello'' None (Some [''search_course_content'']) (Some search_tool) empty_trace)
     = Inr ''AI is great'' \<and>
   length (llm_calls (snd (generate_response (test_generator (return_value text_response))
          ''hello'' None (Some [''search_course_content'']) (Some search_tool) empty_trace)))
     = Suc (length (llm_calls empty_trace)) \<and>
   tool_calls (snd (generate_response (test_generator (return_value text_response))
          ''hello'' None (Some [''search_course_content'']) (Some search_tool) empty_trace))
     = tool_calls empty_trace"
proof -
  have h1: "client (test_generator (return_value text_response))
     (take (Suc (length (llm_calls empty_trace)))
        (llm_calls (snd (generate_response (test_generator (return_value text_response))
           ''hello'' None (Some [''search_course_content'']) (Some search_tool) empty_trace))))
     = Inr text_response"
    by (simp add: test_generator_def return_value_def)
  have h2: "stop_reason text_response \<noteq> ''tool_use''"
    by (simp add: text_response_def)
  have h3: "content text_response = TextBlock ''AI is great'' # []"
    by (simp add: text_response_def)
  from direct_answer [OF h1 h2 h3] h1 h2 h3 show ?thesis by simp
qed

text \<open>
  C10. The empty string as \<^verbatim>\<open>conversation_history\<close> behaves exactly as \<open>None\<close>: the
  whole result (answer and outbound calls) is the same, and the system content of the first
  request is the static system prompt with nothing appended.
\<close>

theorem empty_history_is_no_history:
  "generate_response self query (Some []) tools_arg tmo tr =
     generate_response self query None tools_arg tmo tr \<and>
   system (llm_calls (snd (generate_response self query (Some []) tools_arg tmo tr)) !
             length (llm_calls tr)) = SYSTEM_PROMPT"
proof -
  have req: "first_request self query (Some []) tools_arg =
      first_request self query None tools_arg"
    by (simp add: first_request_def)
  then have "after_first self query (Some []) tools_arg tr =
      after_first self query None tools_arg tr"
    by (simp add: after_first_def)
  with req have "generate_response self query (Some []) tools_arg tmo tr =
     generate_response self query None tools_arg tmo tr"
    by (simp only: generate_unfold)
  moreover have "system (llm_calls (snd (generate_response self query (Some []) tools_arg tmo tr)) !
             length (llm_calls tr)) = SYSTEM_PROMPT"
    by (simp only: first_call_params) (simp add: first_request_def)
  ultimately show ?thesis by (rule conjI)
qed

text \<open>
  C9. Tool handling is gated on both conditions at once. Given the first LLM response \<open>r\<close>
  of the query, \<^verbatim>\<open>generate_response\<close> enters tool execution (it equals
  \<^verbatim>\<open>_handle_tool_execution\<close> at round 1 on the first request, and a follow-up LLM call is
  made) if and only if the stop reason of \<open>r\<close> is \<^verbatim>\<open>"tool_use"\<close> and a tool manager was
  supplied. In every other case it takes the direct-return path: no tool is executed, the
  result is the \<^verbatim>\<open>text\<close> attribute of the first content block, and it is a string
  exactly when the first block is a text block (otherwise an exception is raised).
\<close>

theorem tool_handling_gate:
  assumes "client self (take (Suc (length (llm_calls tr)))
             (llm_calls (snd (generate_response self query history tools_arg tmo tr)))) = Inr r"
  shows "(Suc (length (llm_calls tr)) <
            length (llm_calls (snd (generate_response self query history tools_arg tmo tr)))
          \<longleftrightarrow> stop_reason r = ''tool_use'' \<and> tmo \<noteq> None) \<and>
         (stop_reason r = ''tool_use'' \<and> tmo \<noteq> None \<longrightarrow>
            generate_response self query history tools_arg tmo tr =
              handle_tool_execution self r
                (llm_calls (snd (generate_response self query history tools_arg tmo tr)) !
                   length (llm_calls tr))
                (the tmo) 1
                (tr\<lparr>llm_calls := take (Suc (length (llm_calls tr)))
                   (llm_calls (snd (generate_response self query history tools_arg tmo tr)))\<rparr>)) \<and>
         (\<not> (stop_reason r = ''tool_use'' \<and> tmo \<noteq> None) \<longrightarrow>
            tool_calls (snd (generate_response self query history tools_arg tmo tr)) =
              tool_calls tr \<and>
            fst (generate_response self query history tools_arg tmo tr) =
              first_text (content r) \<and>
            ((\<exists>s. fst (generate_response self query history tools_arg tmo tr) = Inr s)
               \<longleftrightarrow> (\<exists>t bs. content r = TextBlock t # bs)))"
proof -
  from assms have first:
    "client self (llm_calls (after_first self query history tools_arg tr)) = Inr r"
    by (simp only: first_call_history)
  have ft: "(\<exists>s. first_text (content r) = Inr s) \<longleftrightarrow> (\<exists>t bs. content r = TextBlock t # bs)"
    by (cases "content r" rule: first_text.cases) simp_all
  have hist: "tr\<lparr>llm_calls := take (Suc (length (llm_calls tr)))
       (llm_calls (snd (generate_response self query history tools_arg tmo tr)))\<rparr> =
     after_first self query history tools_arg tr"
    by (simp only: first_call_history) (simp add: after_first_def)
  show ?thesis
  proof (cases rule: generate_cases [of self query history tools_arg tr tmo])
    case (raised e)
    with first show ?thesis by simp
  next
    case (tools r' tm)
    with first have r': "r' = r" by simp
    from handle_llm_calls [of self r "first_request self query history tools_arg" tm 1
        "after_first self query history tools_arg tr"]
    have "Suc (length (llm_calls tr)) <
        length (llm_calls (snd (generate_response self query history tools_arg tmo tr)))"
      by (auto simp: tools(4) r' llm_calls_after_first)
    moreover have "generate_response self query history tools_arg tmo tr =
        handle_tool_execution self r
          (llm_calls (snd (generate_response self query history tools_arg tmo tr)) !
             length (llm_calls tr))
          (the tmo) 1
          (tr\<lparr>llm_calls := take (Suc (length (llm_calls tr)))
             (llm_calls (snd (generate_response self query history tools_arg tmo tr)))\<rparr>)"
      by (simp only: hist first_call_params) (use tools r' in simp)
    ultimately show ?thesis using tools(2,3) r' by simp
  next
    case (direct r')
    let ?g = "generate_response self query history tools_arg tmo tr"
    from direct first have eq:
      "?g = (first_text (content r), after_first self query history tools_arg tr)"
      by simp
    from direct first have ng: "\<not> (stop_reason r = ''tool_use'' \<and> tmo \<noteq> None)"
      by simp
    have a: "length (llm_calls (snd ?g)) = Suc (length (llm_calls tr))"
      by (simp add: eq llm_calls_after_first)
    have b: "tool_calls (snd ?g) = tool_calls tr"
      by (simp add: eq tool_calls_after_first)
    have c: "fst ?g = first_text (content r)"
      by (simp add: eq)
    show ?thesis
    proof (intro conjI)
      show "Suc (length (llm_calls tr)) < length (llm_calls (snd ?g))
          \<longleftrightarrow> stop_reason r = ''tool_use'' \<and> tmo \<noteq> None"
        using ng by (simp only: a) simp
      show "stop_reason r = ''tool_use'' \<and> tmo \<noteq> None \<longrightarrow>
          ?g = handle_tool_execution self r (llm_calls (snd ?g) ! length (llm_calls tr))
            (the tmo) 1
            (tr\<lparr>llm_calls := take (Suc (length (llm_calls tr))) (llm_calls (snd ?g))\<rparr>)"
        using ng by blast
      show "\<not> (stop_reason r = ''tool_use'' \<and> tmo \<noteq> None) \<longrightarrow>
          tool_calls (snd ?g) = tool_calls tr \<and> fst ?g = first_text (content r) \<and>
          ((\<exists>s. fst ?g = Inr s) \<longleftrightarrow> (\<exists>t bs. content r = TextBlock t # bs))"
        using b ft by (simp only: c) simp
    qed
  qed
qed

theorem tool_handling_gate_witness:
  "client (test_generator (return_value tool_response_1))
     (take (Suc (length (llm_calls empty_trace)))
        (llm_calls (snd (generate_response (test_generator (return_value tool_response_1))
           ''What is AI?'' None (Some test_tools) None empty_trace))))
     = Inr tool_response_1 \<and>
   \<not> (Suc (length (llm_calls empty_trace)) <
        length (llm_calls (snd (generate_response (test_generator (return_value tool_response_1))
           ''What is AI?'' None (Some test_tools) None empty_trace)))) \<and>
   tool_calls (snd (generate_response (test_generator (return_value tool_response_1))
           ''What is AI?'' None (Some test_tools) None empty_trace)) = tool_calls empty_trace \<and>
   fst (generate_response (test_generator (return_value tool_response_1))
           ''What is AI?'' None (Some test_tools) None empty_trace) =
     first_text (content tool_response_1) \<and>
   \<not> (\<exists>s. fst (generate_response (test_generator (return_value tool_response_1))
           ''What is AI?'' None (Some test_tools) None empty_trace) = Inr s)"
proof -
  have h: "client (test_generator (return_value tool_response_1))
     (take (Suc (length (llm_calls empty_trace)))
        (llm_calls (snd (generate_response (test_generator (return_value tool_response_1))
           ''What is AI?'' None (Some test_tools) None empty_trace))))
     = Inr tool_response_1"
    by (simp add: test_generator_def return_value_def)
  have c: "\<not> (\<exists>t bs. content tool_response_1 = TextBlock t # bs)"
    by (simp add: tool_response_1_def)
  from tool_handling_gate [OF h] h c show ?thesis
    by (simp add: tool_response_1_def)
qed

text \<open>
  C7. If a follow-up LLM call was made and the response to the last LLM call of the query
  (the one that terminates the round loop) contains no text block, then
  \<^verbatim>\<open>generate_response\<close> returns the fixed fallback string and raises nothing.
\<close>

theorem fallback_on_missing_text:
  assumes "Suc (length (llm_calls tr)) <
      length (llm_calls (snd (generate_response self query history tools_arg tmo tr)))"
    and "client self (llm_calls (snd (generate_response self query history tools_arg tmo tr)))
      = Inr fr"
    and "list_all (\<lambda>b. \<not> has_text b) (content fr)"
  shows "fst (generate_response self query history tools_arg tmo tr) = Inr fallback_message"
proof (cases rule: generate_cases [of self query history tools_arg tr tmo])
  case (raised e)
  with assms(1) show ?thesis by (simp add: llm_calls_after_first)
next
  case (tools r tm)
  from assms(2) have "client self (llm_calls (snd (handle_tool_execution self r
      (first_request self query history tools_arg) tm 1
      (after_first self query history tools_arg tr)))) = Inr fr"
    by (simp add: tools(4))
  from handle_fallback [OF this assms(3)] show ?thesis by (simp add: tools(4))
next
  case (direct r)
  with assms(1) show ?thesis by (simp add: llm_calls_after_first)
qed

theorem fallback_on_missing_text_witness:
  "Suc (length (llm_calls empty_trace)) <
     length (llm_calls (snd (generate_response
       (test_generator (side_effect [tool_response_1, thinking_response]))
       ''What is AI?'' None (Some test_tools) (Some search_tool) empty_trace))) \<and>
   client (test_generator (side_effect [tool_response_1, thinking_response]))
     (llm_calls (snd (generate_response
       (test_generator (side_effect [tool_response_1, thinking_response]))
       ''What is AI?'' None (Some test_tools) (Some search_tool) empty_trace)))
     = Inr thinking_response \<and>
   list_all (\<lambda>b. \<not> has_text b) (content thinking_response) \<and>
   fst (generate_response
       (test_generator (side_effect [tool_response_1, thinking_response]))
       ''What is AI?'' None (Some test_tools) (Some search_tool) empty_trace)
     = Inr ''I was unable to generate a complete response. Please try rephrasing your question.''"
proof -
  have calls: "length (llm_calls (snd (generate_response
       (test_generator (side_effect [tool_response_1, thinking_response]))
       ''What is AI?'' None (Some test_tools) (Some search_tool) empty_trace))) = 2"
    by (simp add: generate_response_def handle_tool_execution.simps messages_create_def
      execute_tool_def test_generator_def side_effect_def tool_response_1_def
      thinking_response_def search_tool_def empty_trace_def test_tools_def MAX_TOOL_ROUNDS_def)
  have h1: "Suc (length (llm_calls empty_trace)) <
     length (llm_calls (snd (generate_response
       (test_generator (side_effect [tool_response_1, thinking_response]))
       ''What is AI?'' None (Some test_tools) (Some search_tool) empty_trace)))"
    by (simp only: calls) (simp add: empty_trace_def)
  have h2: "client (test_generator (side_effect [tool_response_1, thinking_response]))
     (llm_calls (snd (generate_response
       (test_generator (side_effect [tool_response_1, thinking_response]))
       ''What is AI?'' None (Some test_tools) (Some search_tool) empty_trace)))
     = Inr thinking_response"
  proof -
    have "\<And>calls. length calls = 2 \<Longrightarrow>
        side_effect [tool_response_1, thinking_response] calls = Inr thinking_response"
      by (auto simp: side_effect_def)
    from this [OF calls] show ?thesis by (simp add: test_generator_def)
  qed
  have h3: "list_all (\<lambda>b. \<not> has_text b) (content thinking_response)"
    by (simp add: thinking_response_def)
  from fallback_on_missing_text [OF h1 h2 h3] h1 h2 h3 show ?thesis
    by (simp add: fallback_message_def)
qed

lemma messages_first_request:
  "assistant_turns (messages (first_request self q h ts)) = 0"
  by (simp add: first_request_def assistant_turns_def)

lemma tools_first_request:
  "length (filter (\<lambda>p. tools p \<noteq> None) [first_request self q h ts]) \<le> 1"
  by simp

text \<open>
  C1, as amended. For every LLM client whose every response requests a tool call, one call
  of \<^verbatim>\<open>generate_response\<close> issues at most \<open>MAX_TOOL_ROUNDS + 1\<close> LLM calls, at most
  \<open>MAX_TOOL_ROUNDS\<close> of them carry the tool schema, and at most \<open>MAX_TOOL_ROUNDS\<close>
  tool-requesting turns are folded into the message history. When a tool manager is
  supplied, the final LLM call of the query carries no tool schema. When none is supplied,
  the query makes exactly one LLM call.
\<close>

theorem round_cap:
  assumes always: "\<forall>calls. \<exists>fr. client self calls = Inr fr \<and> stop_reason fr = ''tool_use''"
  shows "int (length (new_calls tr (snd (generate_response self query history tools_arg tmo tr))))
           \<le> MAX_TOOL_ROUNDS + 1 \<and>
         int (length (filter (\<lambda>p. tools p \<noteq> None)
           (new_calls tr (snd (generate_response self query history tools_arg tmo tr)))))
           \<le> MAX_TOOL_ROUNDS \<and>
         int (assistant_turns (messages (last (llm_calls
           (snd (generate_response self query history tools_arg tmo tr))))))
           \<le> MAX_TOOL_ROUNDS \<and>
         (tmo \<noteq> None \<longrightarrow>
            tools (last (llm_calls (snd (generate_response self query history tools_arg tmo tr))))
              = None) \<and>
         (tmo = None \<longrightarrow>
            length (new_calls tr (snd (generate_response self query history tools_arg tmo tr)))
              = 1)"
proof (cases rule: generate_cases [of self query history tools_arg tr tmo])
  case (raised e)
  with always show ?thesis by (metis sum.distinct(1))
next
  case (tools r tm)
  let ?bp = "first_request self query history tools_arg"
  let ?tr1 = "after_first self query history tools_arg tr"
  let ?h = "handle_tool_execution self r ?bp tm 1 ?tr1"
  have n: "new_calls tr (snd ?h) = ?bp # new_calls ?tr1 (snd ?h)"
    by (rule new_calls_generate_tools)
  from handle_count [of ?tr1 self r ?bp tm 1]
  have c1: "int (length (new_calls ?tr1 (snd ?h))) \<le> MAX_TOOL_ROUNDS"
    by (simp add: MAX_TOOL_ROUNDS_def)
  from handle_tools_count [of ?tr1 self r ?bp tm 1]
  have c2: "int (length (filter (\<lambda>p. tools p \<noteq> None) (new_calls ?tr1 (snd ?h))))
      \<le> MAX_TOOL_ROUNDS - 1"
    by (simp add: MAX_TOOL_ROUNDS_def)
  have c3: "assistant_turns (messages (last (llm_calls (snd ?h)))) =
      length (new_calls ?tr1 (snd ?h))"
    by (simp add: handle_assistant_turns messages_first_request)
  from always have "\<And>calls. \<exists>fr. client self calls = Inr fr \<and> stop_reason fr = ''tool_use''"
    by blast
  then have c4: "tools (last (llm_calls (snd ?h))) = None"
    by (rule handle_last_no_tools)
  let ?g = "generate_response self query history tools_arg tmo tr"
  have g: "?g = ?h" by (rule tools(4))
  have "int (length (new_calls tr (snd ?g))) \<le> MAX_TOOL_ROUNDS + 1"
    using c1 by (simp only: g n) simp
  moreover have "int (length (filter (\<lambda>p. tools p \<noteq> None) (new_calls tr (snd ?g))))
      \<le> MAX_TOOL_ROUNDS"
    using c2 by (simp only: g n) simp
  moreover have "int (assistant_turns (messages (last (llm_calls (snd ?g))))) \<le> MAX_TOOL_ROUNDS"
    using c1 by (simp only: g c3)
  moreover have "tools (last (llm_calls (snd ?g))) = None"
    using c4 by (simp only: g)
  moreover have "tmo \<noteq> None"
    using tools(3) by simp
  ultimately show ?thesis by blast
next
  case (direct r)
  let ?g = "generate_response self query history tools_arg tmo tr"
  let ?tr1 = "after_first self query history tools_arg tr"
  from always direct(1) have "stop_reason r = ''tool_use''"
    by (metis sum.inject(2))
  with direct(2) have none: "tmo = None" by simp
  have g: "snd ?g = ?tr1" by (simp add: direct(3))
  have "int (length (new_calls tr (snd ?g))) \<le> MAX_TOOL_ROUNDS + 1"
    by (simp only: g new_calls_after_first) (simp add: MAX_TOOL_ROUNDS_def)
  moreover have "int (length (filter (\<lambda>p. tools p \<noteq> None) (new_calls tr (snd ?g))))
      \<le> MAX_TOOL_ROUNDS"
    by (simp only: g new_calls_after_first) (simp add: MAX_TOOL_ROUNDS_def)
  moreover have "int (assistant_turns (messages (last (llm_calls (snd ?g))))) \<le> MAX_TOOL_ROUNDS"
    by (simp only: g llm_calls_after_first)
       (simp add: messages_first_request MAX_TOOL_ROUNDS_def)
  moreover have "length (new_calls tr (snd ?g)) = 1"
    by (simp only: g new_calls_after_first) simp
  ultimately show ?thesis using none by blast
qed

theorem round_cap_witness:
  "(\<forall>calls. \<exists>fr. client (test_generator (return_value tool_response_1)) calls = Inr fr \<and>
      stop_reason fr = ''tool_use'') \<and>
   int (length (new_calls empty_trace (snd (generate_response
      (test_generator (return_value tool_response_1))
      ''What is AI?'' None (Some test_tools) (Some search_tool) empty_trace)))) \<le> 3 \<and>
   int (length (filter (\<lambda>p. tools p \<noteq> None) (new_calls empty_trace (snd (generate_response
      (test_generator (return_value tool_response_1))
      ''What is AI?'' None (Some test_tools) (Some search_tool) empty_trace))))) \<le> 2 \<and>
   int (assistant_turns (messages (last (llm_calls (snd (generate_response
      (test_generator (return_value tool_response_1))
      ''What is AI?'' None (Some test_tools) (Some search_tool) empty_trace)))))) \<le> 2 \<and>
   tools (last (llm_calls (snd (generate_response
      (test_generator (return_value tool_response_1))
      ''What is AI?'' None (Some test_tools) (Some search_tool) empty_trace)))) = None"
proof -
  have h: "\<forall>calls. \<exists>fr. client (test_generator (return_value tool_response_1)) calls = Inr fr \<and>
      stop_reason fr = ''tool_use''"
    by (simp add: test_generator_def return_value_def tool_response_1_def)
  from round_cap [OF h, of empty_trace "''What is AI?''" None "Some test_tools" "Some search_tool"] h
  show ?thesis by (simp add: MAX_TOOL_ROUNDS_def)
qed

text \<open>
  The claim C1 as first stated fails when tools are passed without a tool manager: the
  response requests a tool call, the query ends after its only LLM call, and that call
  carries the tool schema.
\<close>

theorem final_call_with_tools_counterexample:
  "client (test_generator (return_value text_and_tool_response))
     (llm_calls (snd (generate_response (test_generator (return_value text_and_tool_response))
        ''What is AI?'' None (Some test_tools) None empty_trace)))
     = Inr text_and_tool_response \<and>
   stop_reason text_and_tool_response = ''tool_use'' \<and>
   fst (generate_response (test_generator (return_value text_and_tool_response))
        ''What is AI?'' None (Some test_tools) None empty_trace) = Inr ''Let me search'' \<and>
   length (llm_calls (snd (generate_response (test_generator (return_value text_and_tool_response))
        ''What is AI?'' None (Some test_tools) None empty_trace))) = 1 \<and>
   tools (last (llm_calls (snd (generate_response
        (test_generator (return_value text_and_tool_response))
        ''What is AI?'' None (Some test_tools) None empty_trace)))) = Some test_tools"
  by (simp add: generate_response_def messages_create_def test_generator_def return_value_def
      text_and_tool_response_def empty_trace_def test_tools_def)

lemma round_error_iff:
  "round_error tm r tr \<longleftrightarrow>
     (\<exists>k < length (tool_uses (content r)).
        isl (tm (tool_calls tr @ map snd (take (Suc k) (tool_uses (content r))))))"
  by (simp add: round_error_def any_raises_iff)

lemma handle_after_error:
  assumes "round_error tm r tr"
  shows "handle_tool_execution self r bp tm round tr =
     (case client self (llm_calls (after_round self bp tm r round tr)) of
        Inl e \<Rightarrow> Inl e | Inr fr \<Rightarrow> Inr (extract_text (content fr)),
      after_round self bp tm r round tr)"
proof (cases rule: handle_cases [of self bp tm r round tr])
  case (raised e)
  then show ?thesis by simp
next
  case (again fr)
  with assms show ?thesis by (simp add: round_include_def)
next
  case (final fr)
  then show ?thesis by simp
qed

lemma followup_after_error:
  assumes "round_error tm r tr"
  shows "tools (followup self bp tm r round tr) = None"
    and "tool_choice (followup self bp tm r round tr) = None"
  using assms by (simp_all add: followup_def round_include_def)

text \<open>
  C2. If the \<open>k\<close>-th tool execution of a round raises, then, whatever the round number,
  the handler issues exactly one more LLM call, that call omits the tool schema (and the
  tool choice), and no tool is executed after the tool calls of this round: no further
  tool-bearing exchange occurs. The \<open>k\<close>-th tool call of the round is answered on the call
  history that ends with the first \<open>k + 1\<close> tool requests of the turn.
\<close>

theorem tool_exception_stops_rounds:
  assumes "k < length (tool_uses (content r))"
    and "tool_manager (tool_calls tr @ map snd (take (Suc k) (tool_uses (content r)))) = Inl e"
  shows "\<exists>p. llm_calls (snd (handle_tool_execution self r bp tool_manager round tr)) =
           llm_calls tr @ [p] \<and>
         tools p = None \<and> tool_choice p = None \<and>
         tool_calls (snd (handle_tool_execution self r bp tool_manager round tr)) =
           tool_calls tr @ map snd (tool_uses (content r))"
proof -
  from assms have err: "round_error tool_manager r tr"
    by (auto simp: round_error_iff)
  show ?thesis
    by (intro exI [of _ "followup self bp tool_manager r round tr"])
       (simp add: handle_after_error [OF err] followup_after_error [OF err]
          llm_calls_after_round tool_calls_after_round)
qed

theorem tool_exception_stops_rounds_witness:
  "(0::nat) < length (tool_uses (content tool_response_1)) \<and>
   failing_tool (tool_calls empty_trace @
      map snd (take (Suc 0) (tool_uses (content tool_response_1))))
     = Inl (Exn ''Exception'' ''DB connection failed'') \<and>
   (1::int) < MAX_TOOL_ROUNDS \<and>
   (\<exists>p. llm_calls (snd (handle_tool_execution
             (test_generator (side_effect [tool_response_1, text_response])) tool_response_1
             (first_request (test_generator (side_effect [tool_response_1, text_response]))
                ''search'' None (Some test_tools))
             failing_tool 1 empty_trace)) = llm_calls empty_trace @ [p] \<and>
        tools p = None \<and> tool_choice p = None \<and>
        tool_calls (snd (handle_tool_execution
             (test_generator (side_effect [tool_response_1, text_response])) tool_response_1
             (first_request (test_generator (side_effect [tool_response_1, text_response]))
                ''search'' None (Some test_tools))
             failing_tool 1 empty_trace)) =
          tool_calls empty_trace @ map snd (tool_uses (content tool_response_1)))"
proof -
  have h1: "(0::nat) < length (tool_uses (content tool_response_1))"
    by (simp add: tool_response_1_def)
  have h2: "failing_tool (tool_calls empty_trace @
      map snd (take (Suc 0) (tool_uses (content tool_response_1))))
     = Inl (Exn ''Exception'' ''DB connection failed'')"
    by (simp add: failing_tool_def)
  have h3: "(1::int) < MAX_TOOL_ROUNDS"
    by (simp add: MAX_TOOL_ROUNDS_def)
  from tool_exception_stops_rounds [where k = 0 and r = tool_response_1
      and tool_manager = failing_tool and tr = empty_trace, OF h1 h2] h1 h2 h3
  show ?thesis by blast
qed


lemma round_results_map:
  "round_results tm r tr =
     map (\<lambda>k. \<lparr>result_type = ''tool_result'', tool_use_id = fst (tool_uses (content r) ! k),
                result_content =
                  result_text (tm (tool_calls tr @
                    map snd (take (Suc k) (tool_uses (content r)))))\<rparr>)
       [0..<length (tool_uses (content r))]"
  by (rule nth_equalityI) (simp_all add: round_results_def nth_expected_results)

lemma round_messages_nonempty:
  assumes "tool_uses (content r) \<noteq> []"
  shows "round_messages bp tm r tr =
     messages bp @
       [\<lparr>role = ''assistant'', message_content = Blocks (content r)\<rparr>,
        \<lparr>role = ''user'', message_content = ToolResults (round_results tm r tr)\<rparr>]"
proof -
  from assms have "length (round_results tm r tr) \<noteq> 0"
    by (simp add: round_results_def)
  then have "round_results tm r tr \<noteq> []" by simp
  then show ?thesis by (simp add: round_messages_def)
qed

text \<open>
  An exception leaves the handler only as the exception of its last LLM call, and leaves
  \<^verbatim>\<open>generate_response\<close> only as the exception of its last LLM call or of reading
  \<^verbatim>\<open>content[0].text\<close> on the direct path: no exception of a tool does.
\<close>

lemma handle_error_source:
  "fst (handle_tool_execution self r bp tm round tr) = Inl e \<Longrightarrow>
   client self (llm_calls (snd (handle_tool_execution self r bp tm round tr))) = Inl e"
proof (induction r bp round tr rule: round_induct)
  case (1 r bp round tr)
  show ?case
  proof (cases rule: handle_cases [of self bp tm r round tr])
    case (raised e')
    with "1.prems" show ?thesis by simp
  next
    case (again fr)
    from "1.prems" have "fst (handle_tool_execution self fr
        (bp\<lparr>messages := round_messages bp tm r tr\<rparr>) tm (round + 1)
        (after_round self bp tm r round tr)) = Inl e"
      by (simp add: again(5))
    from "1.IH" [OF again(4) this] show ?thesis by (simp add: again(5))
  next
    case (final fr)
    with "1.prems" show ?thesis by simp
  qed
qed

lemma generate_error_source:
  assumes "fst (generate_response self query history tools_arg tmo tr) = Inl e"
  shows "client self (llm_calls (snd (generate_response self query history tools_arg tmo tr)))
           = Inl e \<or>
         (\<exists>r. client self
                 (llm_calls (snd (generate_response self query history tools_arg tmo tr)))
               = Inr r \<and>
              \<not> (stop_reason r = ''tool_use'' \<and> tmo \<noteq> None) \<and>
              first_text (content r) = Inl e)"
proof (cases rule: generate_cases [of self query history tools_arg tr tmo])
  case (raised e')
  with assms show ?thesis by simp
next
  case (tools r tm)
  from assms have "fst (handle_tool_execution self r
      (first_request self query history tools_arg) tm 1
      (after_first self query history tools_arg tr)) = Inl e"
    by (simp add: tools(4))
  from handle_error_source [OF this] show ?thesis by (simp add: tools(4))
next
  case (direct r)
  with assms show ?thesis by simp
qed



text \<open>
  C6. Within one LLM turn that requests tool calls, the calls reach the tool manager one
  after the other in the order of the tool-use blocks, and the follow-up request carries the
  previous messages, the assistant turn, and one single user message with all tool results:
  the \<open>k\<close>-th result has the identifier of the \<open>k\<close>-th tool-use block and the text (or
  the synthetic error text) of the \<open>k\<close>-th execution.
\<close>

theorem tool_results_in_order:
  assumes "tool_uses (content r) \<noteq> []"
  shows "prefix (tool_calls tr @ map snd (tool_uses (content r)))
           (tool_calls (snd (handle_tool_execution self r bp tool_manager round tr))) \<and>
         messages (llm_calls (snd (handle_tool_execution self r bp tool_manager round tr)) !
                     length (llm_calls tr)) =
           messages bp @
           [\<lparr>role = ''assistant'', message_content = Blocks (content r)\<rparr>,
            \<lparr>role = ''user'',
             message_content = ToolResults
               (map (\<lambda>k. \<lparr>result_type = ''tool_result'',
                          tool_use_id = fst (tool_uses (content r) ! k),
                          result_content =
                            (case tool_manager (tool_calls tr @
                                    map snd (take (Suc k) (tool_uses (content r)))) of
                               Inr tool_result \<Rightarrow> tool_result
                             | Inl e \<Rightarrow> ''Tool execution error: '' @ exn_str e)\<rparr>)
                  [0..<length (tool_uses (content r))])\<rparr>]"
proof -
  from handle_tool_calls [of self r bp tool_manager round tr]
  have "prefix (tool_calls tr @ map snd (tool_uses (content r)))
      (tool_calls (snd (handle_tool_execution self r bp tool_manager round tr)))"
    by (auto simp: prefix_def)
  moreover from handle_llm_calls [of self r bp tool_manager round tr]
  have "llm_calls (snd (handle_tool_execution self r bp tool_manager round tr)) !
      length (llm_calls tr) = followup self bp tool_manager r round tr"
    by (auto simp: nth_append)
  then have "messages (llm_calls (snd (handle_tool_execution self r bp tool_manager round tr)) !
      length (llm_calls tr)) =
    messages bp @
      [\<lparr>role = ''assistant'', message_content = Blocks (content r)\<rparr>,
       \<lparr>role = ''user'', message_content = ToolResults (round_results tool_manager r tr)\<rparr>]"
    by (simp add: messages_followup round_messages_nonempty [OF assms])
  ultimately show ?thesis
    by (simp only: round_results_map [of tool_manager r tr] result_text_def) 
qed
theorem tool_results_in_order_witness:
  "tool_uses (content two_tool_response) \<noteq> [] \<and>
   prefix [(''search_course_content'', [(''query'', JStr ''q1'')]),
           (''search_course_content'', [(''query'', JStr ''q2''), (''lesson_number'', JInt 0)])]
     (tool_calls (snd (handle_tool_execution
        (test_generator (return_value text_response)) two_tool_response
        (first_request (test_generator (return_value text_response))
           ''search'' None (Some test_tools))
        search_tool 1 empty_trace))) \<and>
   messages (llm_calls (snd (handle_tool_execution
        (test_generator (return_value text_response)) two_tool_response
        (first_request (test_generator (return_value text_response))
           ''search'' None (Some test_tools))
        search_tool 1 empty_trace)) ! 0) =
     [\<lparr>role = ''user'', message_content = Text ''search''\<rparr>,
      \<lparr>role = ''assistant'', message_content = Blocks (content two_tool_response)\<rparr>,
      \<lparr>role = ''user'', message_content = ToolResults
         [\<lparr>result_type = ''tool_result'', tool_use_id = ''t1'',
           result_content = ''search results''\<rparr>,
          \<lparr>result_type = ''tool_result'', tool_use_id = ''t2'',
           result_content = ''search results''\<rparr>]\<rparr>]"
proof -
  have h: "tool_uses (content two_tool_response) \<noteq> []"
    by (simp add: two_tool_response_def)
  have u: "tool_uses (content two_tool_response) =
     [(''t1'', ''search_course_content'', [(''query'', JStr ''q1'')]),
      (''t2'', ''search_course_content'', [(''query'', JStr ''q2''), (''lesson_number'', JInt 0)])]"
    by (simp add: two_tool_response_def)
  have n: "[0..<2] = [0, Suc 0]" by (simp add: upt_rec)
  from tool_results_in_order [where r = two_tool_response and tr = empty_trace
      and self = "test_generator (return_value text_response)"
      and bp = "first_request (test_generator (return_value text_response))
             ''search'' None (Some test_tools)"
      and tool_manager = search_tool and round = 1, OF h]
    h
  show ?thesis
    by (simp add: u n first_request_def search_tool_def empty_trace_def)
qed

subsection \<open>The claims on the retrieval side\<close>

lemma test_build_filter:
  "build_filter None None = None"
  "build_filter (Some ''My Course'') None = Some (CourseTitleEq ''My Course'')"
  "build_filter None (Some 3) = Some (LessonNumberEq 3)"
  "build_filter (Some ''My Course'') (Some 1) =
     Some (And [CourseTitleEq ''My Course'', LessonNumberEq 1])"
  "build_filter None (Some 0) = Some (LessonNumberEq 0)"
  by (simp_all add: build_filter_def)

text \<open>
  C4. The filter builder gives no filter for no course name and no lesson number, the
  equality filter on the course title for a course name alone, the equality filter on the
  lesson number for a lesson number alone (for every integer, so also for 0, which is never
  taken for "no filter"), and the conjunction of both filters when both are given.
\<close>

theorem build_filter_cases:
  "build_filter None None = None \<and>
   build_filter (Some c) None = Some (CourseTitleEq c) \<and>
   build_filter None (Some n) = Some (LessonNumberEq n) \<and>
   build_filter None (Some 0) = Some (LessonNumberEq 0) \<and>
   build_filter None (Some 0) \<noteq> build_filter None None \<and>
   build_filter (Some c) (Some n) = Some (And [CourseTitleEq c, LessonNumberEq n])"
  by (simp add: build_filter_def)

lemma SearchResults_empty_invariant:
  "SearchResults_invariant (SearchResults_empty error_msg)"
  by (simp add: SearchResults_invariant_def SearchResults_empty_def)

lemma SearchResults_plain_invariant:
  "length ms = length ds \<Longrightarrow> length dists = length ds \<Longrightarrow>
   SearchResults_invariant \<lparr>documents = ds, metadata = ms, distances = dists, error = None\<rparr>"
  by (simp add: SearchResults_invariant_def)



end
